theory Spec2Isabelle
  imports Main
begin

section \<open>The declarations of ast.go\<close>

text \<open>
  The package consists of one file, \<^verbatim>\<open>ast.go\<close>, which declares types only: 47 struct
  types, five interface types with one unexported marker method each, and the 29
  methods that put a struct type into an interface's method set. It has no function
  with a body that computes anything.

  Two views of the file are given. This section holds the declarations themselves as
  data (every struct with its fields and their Go types in source order, every
  interface with its methods, every method declaration with its receiver), so that
  statements about which fields and which variants a type has can be computed. The next
  section gives the values of these types as HOL datatypes.
\<close>

subsection \<open>Go types and type declarations\<close>

datatype go_type =
    GoInt                       \<comment> \<open>\<^verbatim>\<open>int\<close>\<close>
  | GoString                    \<comment> \<open>\<^verbatim>\<open>string\<close>\<close>
  | GoBool                      \<comment> \<open>\<^verbatim>\<open>bool\<close>\<close>
  | Named string                \<comment> \<open>a type declared in this package\<close>
  | Imported string string      \<comment> \<open>a type of an imported package: \<^verbatim>\<open>lexer.Type\<close>\<close>
  | Slice go_type               \<comment> \<open>\<^verbatim>\<open>[]T\<close>\<close>
  | Pointer go_type             \<comment> \<open>\<^verbatim>\<open>*T\<close>\<close>

datatype type_decl =
    StructType "(string \<times> go_type) list"   \<comment> \<open>field names and types, in source order\<close>
  | InterfaceType "string list"            \<comment> \<open>method names\<close>

subsection \<open>The type declarations, in source order\<close>

definition source_location_decls :: "(string \<times> type_decl) list" where
  "source_location_decls = [
    (''Source'', StructType [
       (''Body'', GoString),
       (''Name'', GoString),
       (''LocationOffset'', Pointer (Named ''Location''))]),
    (''Location'', StructType [
       (''Start'', GoInt),
       (''End'', GoInt),
       (''StartToken'', Named ''Token''),
       (''EndToken'', Named ''Token''),
       (''Source'', Named ''Source'')]),
    (''Token'', StructType [
       (''Kind'', Imported ''lexer'' ''Type''),
       (''Start'', GoInt),
       (''End'', GoInt),
       (''Line'', GoInt),
       (''Column'', GoInt),
       (''Value'', GoString),
       (''Prev'', Pointer (Named ''Token'')),
       (''Next'', Pointer (Named ''Token''))])]"

definition executable_decls :: "(string \<times> type_decl) list" where
  "executable_decls = [
    (''Name'', StructType [
       (''Loc'', Named ''Location''),
       (''Value'', GoString)]),
    (''ExecutableDocument'', StructType [
       (''Loc'', Named ''Location''),
       (''Operations'', Slice (Named ''OperationDefinition'')),
       (''Fragments'', Slice (Named ''FragmentDefinition''))]),
    (''SchemaDocument'', StructType [
       (''Loc'', Named ''Location''),
       (''SchemaDefinitions'', Slice (Named ''SchemaDefinition'')),
       (''TypeDefinitions'', Slice (Named ''TypeDefinition'')),
       (''DirectiveDefinition'', Slice (Named ''DirectiveDefinition'')),
       (''SchemaExtensions'', Slice (Named ''SchemaExtension'')),
       (''TypeExtensions'', Slice (Named ''TypeExtension''))]),
    (''OperationDefinition'', StructType [
       (''Loc'', Named ''Location''),
       (''Operation'', GoString),
       (''Name'', Named ''Name''),
       (''VariableDefinitions'', Slice (Named ''VariableDefinition'')),
       (''Directives'', Slice (Named ''Directive'')),
       (''SelectionSet'', Named ''SelectionSet'')]),
    (''VariableDefinition'', StructType [
       (''Loc'', Named ''Location''),
       (''Variable'', Named ''Variable''),
       (''Type'', Named ''Type''),
       (''DefaultValue'', Named ''Value'')]),
    (''Variable'', StructType [
       (''Loc'', Named ''Location''),
       (''Name'', Named ''Name'')]),
    (''SelectionSet'', StructType [
       (''Loc'', Named ''Location''),
       (''Selections'', Slice (Named ''Selection''))]),
    (''Selection'', InterfaceType [''isSelection'']),
    (''Field'', StructType [
       (''Loc'', Named ''Location''),
       (''Alias'', Named ''Name''),
       (''Name'', Named ''Name''),
       (''Arguments'', Slice (Named ''Argument'')),
       (''Directives'', Slice (Named ''Directive'')),
       (''SelectionSet'', Named ''SelectionSet'')]),
    (''Argument'', StructType [
       (''Loc'', Named ''Location''),
       (''Name'', Named ''Name''),
       (''Value'', Named ''Value'')]),
    (''FragmentSpread'', StructType [
       (''Loc'', Named ''Location''),
       (''Name'', Named ''Name''),
       (''Directives'', Slice (Named ''Directive''))]),
    (''InlineFragment'', StructType [
       (''Loc'', Named ''Location''),
       (''TypeCondition'', Named ''NamedType''),
       (''Directives'', Slice (Named ''Directive'')),
       (''SelectionSet'', Slice (Named ''SelectionSet''))]),
    (''FragmentDefinition'', StructType [
       (''Loc'', Named ''Location''),
       (''Name'', Named ''Name''),
       (''VariableDefinition'', Slice (Named ''VariableDefinition'')),
       (''TypeCondition'', Named ''NamedType''),
       (''Directives'', Slice (Named ''Directive'')),
       (''SelectionSet'', Slice (Named ''SelectionSet''))])]"

definition value_decls :: "(string \<times> type_decl) list" where
  "value_decls = [
    (''Value'', InterfaceType [''isValue'']),
    (''IntValue'', StructType [
       (''Loc'', Named ''Location''),
       (''Value'', GoString)]),
    (''FloatValue'', StructType [
       (''Loc'', Named ''Location''),
       (''Value'', GoString)]),
    (''StringValue'', StructType [
       (''Loc'', Named ''Location''),
       (''Value'', GoString),
       (''Block'', GoBool)]),
    (''BooleanValue'', StructType [
       (''Loc'', Named ''Location''),
       (''Value'', GoBool)]),
    (''NullValue'', StructType [
       (''Loc'', Named ''Location'')]),
    (''EnumValue'', StructType [
       (''Loc'', Named ''Location''),
       (''Value'', GoString)]),
    (''ListValue'', StructType [
       (''Loc'', Named ''Location''),
       (''Values'', Slice (Named ''Value''))]),
    (''ObjectValue'', StructType [
       (''Loc'', Named ''Location''),
       (''Fields'', Slice (Named ''ObjectField''))]),
    (''ObjectField'', StructType [
       (''Loc'', Named ''Location''),
       (''Name'', Named ''Name''),
       (''Value'', Named ''Value'')]),
    (''Directive'', StructType [
       (''Loc'', Named ''Location''),
       (''Name'', Named ''Name''),
       (''Arguments'', Slice (Named ''Argument''))]),
    (''Type'', InterfaceType [''isType'']),
    (''NamedType'', StructType [
       (''Loc'', Named ''Location''),
       (''Name'', Named ''Name'')]),
    (''ListType'', StructType [
       (''Loc'', Named ''Location''),
       (''Type'', Named ''Type'')]),
    (''NonNullType'', StructType [
       (''Loc'', Named ''Location''),
       (''Type'', Named ''Type'')])]"

definition definition_decls :: "(string \<times> type_decl) list" where
  "definition_decls = [
    (''TypeDefinition'', InterfaceType [''isTypeDefinition'']),
    (''SchemaDefinition'', StructType [
       (''Loc'', Named ''Location''),
       (''Directives'', Slice (Named ''Directive'')),
       (''OperationTypes'', Slice (Named ''OperationTypeDefinition''))]),
    (''OperationTypeDefinition'', StructType [
       (''Loc'', Named ''Location''),
       (''Operation'', GoString),
       (''Type'', Named ''NamedType'')]),
    (''ScalarTypeDefinition'', StructType [
       (''Loc'', Named ''Location''),
       (''Description'', Named ''StringValue''),
       (''Name'', Named ''Name''),
       (''Directives'', Slice (Named ''Directive''))]),
    (''ObjectTypeDefinition'', StructType [
       (''Loc'', Named ''Location''),
       (''Description'', Named ''StringValue''),
       (''Name'', Named ''Name''),
       (''Interfaces'', Slice (Named ''NamedType'')),
       (''Directives'', Slice (Named ''Directive'')),
       (''Fields'', Slice (Named ''FieldDefinition''))]),
    (''FieldDefinition'', StructType [
       (''Loc'', Named ''Location''),
       (''Description'', Named ''StringValue''),
       (''Name'', Named ''Name''),
       (''Arguments'', Slice (Named ''InputValueDefinition'')),
       (''Type'', Named ''Type''),
       (''Directives'', Slice (Named ''Directive''))]),
    (''InputValueDefinition'', StructType [
       (''Loc'', Named ''Location''),
       (''Description'', Named ''StringValue''),
       (''Name'', Named ''Name''),
       (''Type'', Named ''Type''),
       (''DefaultValue'', Named ''Value''),
       (''Directives'', Slice (Named ''Directive''))]),
    (''InterfaceTypeDefinition'', StructType [
       (''Loc'', Named ''Location''),
       (''Description'', Named ''StringValue''),
       (''Name'', Named ''Name''),
       (''Directives'', Slice (Named ''Directive'')),
       (''Fields'', Slice (Named ''FieldDefinition''))]),
    (''UnionTypeDefinition'', StructType [
       (''Loc'', Named ''Location''),
       (''Description'', Named ''StringValue''),
       (''Name'', Named ''Name''),
       (''Directives'', Slice (Named ''Directive'')),
       (''Types'', Slice (Named ''NamedType''))]),
    (''EnumTypeDefinition'', StructType [
       (''Loc'', Named ''Location''),
       (''Description'', Named ''StringValue''),
       (''Name'', Named ''Name''),
       (''Directives'', Slice (Named ''Directive'')),
       (''Values'', Slice (Named ''EnumValueDefinition''))]),
    (''EnumValueDefinition'', StructType [
       (''Loc'', Named ''Location''),
       (''Description'', Named ''StringValue''),
       (''Name'', Named ''Name''),
       (''Directives'', Slice (Named ''Directive''))]),
    (''InputObjectTypeDefinition'', StructType [
       (''Loc'', Named ''Location''),
       (''Description'', Named ''StringValue''),
       (''Name'', Named ''Name''),
       (''Directives'', Slice (Named ''Directive'')),
       (''Fields'', Slice (Named ''InputValueDefinition''))]),
    (''DirectiveDefinition'', StructType [
       (''Loc'', Named ''Location''),
       (''Description'', Named ''StringValue''),
       (''Name'', Named ''Name''),
       (''Arguments'', Named ''InputValueDefinition''),
       (''Locations'', Named ''Name'')])]"

definition extension_decls :: "(string \<times> type_decl) list" where
  "extension_decls = [
    (''SchemaExtension'', StructType [
       (''Loc'', Named ''Location''),
       (''Directives'', Slice (Named ''Directive'')),
       (''OperationTypes'', Slice (Named ''OperationTypeDefinition''))]),
    (''TypeExtension'', InterfaceType [''isTypeExtension'']),
    (''ScalarTypeExtension'', StructType [
       (''Loc'', Named ''Location''),
       (''Name'', Named ''Name''),
       (''Directives'', Slice (Named ''Directive''))]),
    (''ObjectTypeExtension'', StructType [
       (''Loc'', Named ''Location''),
       (''Name'', Named ''Name''),
       (''Interfaces'', Named ''NamedType''),
       (''Directives'', Slice (Named ''Directive'')),
       (''Fields'', Named ''FieldDefinition'')]),
    (''InterfaceTypeExtension'', StructType [
       (''Loc'', Named ''Location''),
       (''Name'', Named ''Name''),
       (''Directives'', Slice (Named ''Directive'')),
       (''Fields'', Slice (Named ''FieldDefinition''))]),
    (''UnionTypeExtension'', StructType [
       (''Loc'', Named ''Location''),
       (''Name'', Named ''Name''),
       (''Directives'', Slice (Named ''Directive'')),
       (''Types'', Named ''NamedType'')]),
    (''EnumTypeExtension'', StructType [
       (''Loc'', Named ''Location''),
       (''Name'', Named ''Name''),
       (''Directives'', Slice (Named ''Directive'')),
       (''Values'', Named ''EnumValueDefinition'')]),
    (''InputObjectTypeExtension'', StructType [
       (''Loc'', Named ''Location''),
       (''Name'', Named ''Name''),
       (''Directives'', Slice (Named ''Directive'')),
       (''Fields'', Named ''InputValueDefinition'')])]"

definition type_decls :: "(string \<times> type_decl) list" where
  "type_decls =
     source_location_decls @ executable_decls @ value_decls @ definition_decls @ extension_decls"


subsection \<open>Reading the declarations\<close>

definition decl_of :: "string \<Rightarrow> type_decl option" where
  "decl_of n = map_of type_decls n"

fun is_struct :: "type_decl \<Rightarrow> bool" where
  "is_struct (StructType fs) = True"
| "is_struct (InterfaceType ms) = False"

definition struct_names :: "string list" where
  "struct_names = map fst (filter (\<lambda>(n, d). is_struct d) type_decls)"


definition struct_fields :: "string \<Rightarrow> (string \<times> go_type) list" where
  "struct_fields n = (case decl_of n of Some (StructType fs) \<Rightarrow> fs | _ \<Rightarrow> [])"

definition field_type :: "string \<Rightarrow> string \<Rightarrow> go_type option" where
  "field_type n f = map_of (struct_fields n) f"



subsection \<open>Predicates on declarations used by the statements below\<close>

text \<open>\<open>has_suffix n s\<close>: the name \<open>n\<close> ends in \<open>s\<close> (Go's \<^verbatim>\<open>strings.HasSuffix\<close>).\<close>

definition has_suffix :: "string \<Rightarrow> string \<Rightarrow> bool" where
  "has_suffix n s = (length s \<le> length n \<and> drop (length n - length s) n = s)"

text \<open>\<open>mentions a t\<close>: the type \<open>t\<close> is the named type \<open>a\<close>, or a slice of or pointer to it.\<close>

fun mentions :: "string \<Rightarrow> go_type \<Rightarrow> bool" where
  "mentions a (Named b) = (a = b)"
| "mentions a (Slice t) = mentions a t"
| "mentions a (Pointer t) = mentions a t"
| "mentions a t = False"

text \<open>
  The AST node types are the struct types other than the three that describe the source
  text itself: the buffer (\<^verbatim>\<open>Source\<close>), the position (\<^verbatim>\<open>Location\<close>) and the lexical
  token (\<^verbatim>\<open>Token\<close>).
\<close>

definition node_types :: "string list" where
  "node_types = filter (\<lambda>n. n \<notin> set [''Source'', ''Location'', ''Token'']) struct_names"

section \<open>The values of the declared types\<close>

text \<open>
  Each struct type is a datatype with one constructor of the struct's name; its
  selectors are the struct's fields, in source order. Go's \<^verbatim>\<open>int\<close> is \<open>int\<close> (the file
  does no arithmetic), \<^verbatim>\<open>string\<close> is \<open>string\<close>, a slice \<^verbatim>\<open>[]T\<close> is a list.
  \<^verbatim>\<open>lexer.Type\<close> is declared in an imported package and is left unspecified.

  A pointer may be nil: \<^verbatim>\<open>*Location\<close> is \<open>Location option\<close>. The \<^verbatim>\<open>Prev\<close> and \<^verbatim>\<open>Next\<close>
  pointers of a token link tokens into a doubly-linked list, which is cyclic, so they
  are addresses into a store of tokens rather than the tokens themselves.

  A value of an interface type is nil or a value of one of the struct types that have
  the interface's method: the datatype of an interface has the constructor \<open>I_nil\<close> and
  one constructor \<open>I_T\<close> for each method declaration \<^verbatim>\<open>func (T) isI()\<close>.
\<close>

typedecl lexer_Type

type_synonym addr = nat

datatype Token = Token
  (Kind: lexer_Type)
  (Start: int)
  (End: int)
  (Line: int)
  (Column: int)
  (Value: string)
  (Prev: "addr option")
  (Next: "addr option")

datatype Source = Source
  (Body: string)
  (Name: string)
  (LocationOffset: "Location option")
and Location = Location
  (Start: int)
  (End: int)
  (StartToken: Token)
  (EndToken: Token)
  (Source: Source)

datatype Name = Name
  (Loc: Location)
  (Value: string)

datatype Variable = Variable
  (Loc: Location)
  (Name: Name)

datatype IntValue = IntValue
  (Loc: Location)
  (Value: string)

datatype FloatValue = FloatValue
  (Loc: Location)
  (Value: string)

datatype StringValue = StringValue
  (Loc: Location)
  (Value: string)
  (Block: bool)

datatype BooleanValue = BooleanValue
  (Loc: Location)
  (Value: bool)

datatype NullValue = NullValue
  (Loc: Location)

datatype EnumValue = EnumValue
  (Loc: Location)
  (Value: string)

datatype ListValue = ListValue
  (Loc: Location)
  (Values: "Value list")
and ObjectValue = ObjectValue
  (Loc: Location)
  (Fields: "ObjectField list")
and ObjectField = ObjectField
  (Loc: Location)
  (Name: Name)
  (Value: Value)
and Value =
    Value_nil
  | Value_Variable Variable
  | Value_IntValue IntValue
  | Value_FloatValue FloatValue
  | Value_StringValue StringValue
  | Value_BooleanValue BooleanValue
  | Value_NullValue NullValue
  | Value_EnumValue EnumValue
  | Value_ListValue ListValue
  | Value_ObjectValue ObjectValue

datatype Argument = Argument
  (Loc: Location)
  (Name: Name)
  (Value: Value)

datatype Directive = Directive
  (Loc: Location)
  (Name: Name)
  (Arguments: "Argument list")

datatype NamedType = NamedType
  (Loc: Location)
  (Name: Name)

datatype ListType = ListType
  (Loc: Location)
  (Type: Type)
and NonNullType = NonNullType
  (Loc: Location)
  (Type: Type)
and Type =
    Type_nil
  | Type_NamedType NamedType
  | Type_ListType ListType
  | Type_NonNullType NonNullType

datatype VariableDefinition = VariableDefinition
  (Loc: Location)
  (Variable: Variable)
  (Type: Type)
  (DefaultValue: Value)

datatype FragmentSpread = FragmentSpread
  (Loc: Location)
  (Name: Name)
  (Directives: "Directive list")

datatype SelectionSet = SelectionSet
  (Loc: Location)
  (Selections: "Selection list")
and Field = Field
  (Loc: Location)
  (Alias: Name)
  (Name: Name)
  (Arguments: "Argument list")
  (Directives: "Directive list")
  (SelectionSet: SelectionSet)
and InlineFragment = InlineFragment
  (Loc: Location)
  (TypeCondition: NamedType)
  (Directives: "Directive list")
  (SelectionSet: "SelectionSet list")
and Selection =
    Selection_nil
  | Selection_Field Field
  | Selection_FragmentSpread FragmentSpread
  | Selection_InlineFragment InlineFragment

datatype FragmentDefinition = FragmentDefinition
  (Loc: Location)
  (Name: Name)
  (VariableDefinition: "VariableDefinition list")
  (TypeCondition: NamedType)
  (Directives: "Directive list")
  (SelectionSet: "SelectionSet list")

datatype OperationDefinition = OperationDefinition
  (Loc: Location)
  (Operation: string)
  (Name: Name)
  (VariableDefinitions: "VariableDefinition list")
  (Directives: "Directive list")
  (SelectionSet: SelectionSet)

datatype ExecutableDocument = ExecutableDocument
  (Loc: Location)
  (Operations: "OperationDefinition list")
  (Fragments: "FragmentDefinition list")

datatype InputValueDefinition = InputValueDefinition
  (Loc: Location)
  (Description: StringValue)
  (Name: Name)
  (Type: Type)
  (DefaultValue: Value)
  (Directives: "Directive list")

datatype OperationTypeDefinition = OperationTypeDefinition
  (Loc: Location)
  (Operation: string)
  (Type: NamedType)

datatype SchemaDefinition = SchemaDefinition
  (Loc: Location)
  (Directives: "Directive list")
  (OperationTypes: "OperationTypeDefinition list")

datatype ScalarTypeDefinition = ScalarTypeDefinition
  (Loc: Location)
  (Description: StringValue)
  (Name: Name)
  (Directives: "Directive list")

datatype FieldDefinition = FieldDefinition
  (Loc: Location)
  (Description: StringValue)
  (Name: Name)
  (Arguments: "InputValueDefinition list")
  (Type: Type)
  (Directives: "Directive list")

datatype ObjectTypeDefinition = ObjectTypeDefinition
  (Loc: Location)
  (Description: StringValue)
  (Name: Name)
  (Interfaces: "NamedType list")
  (Directives: "Directive list")
  (Fields: "FieldDefinition list")

datatype InterfaceTypeDefinition = InterfaceTypeDefinition
  (Loc: Location)
  (Description: StringValue)
  (Name: Name)
  (Directives: "Directive list")
  (Fields: "FieldDefinition list")

datatype UnionTypeDefinition = UnionTypeDefinition
  (Loc: Location)
  (Description: StringValue)
  (Name: Name)
  (Directives: "Directive list")
  (Types: "NamedType list")

datatype EnumValueDefinition = EnumValueDefinition
  (Loc: Location)
  (Description: StringValue)
  (Name: Name)
  (Directives: "Directive list")

datatype EnumTypeDefinition = EnumTypeDefinition
  (Loc: Location)
  (Description: StringValue)
  (Name: Name)
  (Directives: "Directive list")
  (Values: "EnumValueDefinition list")

datatype InputObjectTypeDefinition = InputObjectTypeDefinition
  (Loc: Location)
  (Description: StringValue)
  (Name: Name)
  (Directives: "Directive list")
  (Fields: "InputValueDefinition list")

datatype DirectiveDefinition = DirectiveDefinition
  (Loc: Location)
  (Description: StringValue)
  (Name: Name)
  (Arguments: InputValueDefinition)
  (Locations: Name)

datatype TypeDefinition =
    TypeDefinition_nil
  | TypeDefinition_SchemaDefinition SchemaDefinition
  | TypeDefinition_DirectiveDefinition DirectiveDefinition
  | TypeDefinition_ScalarTypeDefinition ScalarTypeDefinition
  | TypeDefinition_ObjectTypeDefinition ObjectTypeDefinition
  | TypeDefinition_InterfaceTypeDefinition InterfaceTypeDefinition
  | TypeDefinition_UnionTypeDefinition UnionTypeDefinition
  | TypeDefinition_EnumTypeDefinition EnumTypeDefinition
  | TypeDefinition_InputObjectTypeDefinition InputObjectTypeDefinition

datatype SchemaExtension = SchemaExtension
  (Loc: Location)
  (Directives: "Directive list")
  (OperationTypes: "OperationTypeDefinition list")

datatype ScalarTypeExtension = ScalarTypeExtension
  (Loc: Location)
  (Name: Name)
  (Directives: "Directive list")

datatype ObjectTypeExtension = ObjectTypeExtension
  (Loc: Location)
  (Name: Name)
  (Interfaces: NamedType)
  (Directives: "Directive list")
  (Fields: FieldDefinition)

datatype InterfaceTypeExtension = InterfaceTypeExtension
  (Loc: Location)
  (Name: Name)
  (Directives: "Directive list")
  (Fields: "FieldDefinition list")

datatype UnionTypeExtension = UnionTypeExtension
  (Loc: Location)
  (Name: Name)
  (Directives: "Directive list")
  (Types: NamedType)

datatype EnumTypeExtension = EnumTypeExtension
  (Loc: Location)
  (Name: Name)
  (Directives: "Directive list")
  (Values: EnumValueDefinition)

datatype InputObjectTypeExtension = InputObjectTypeExtension
  (Loc: Location)
  (Name: Name)
  (Directives: "Directive list")
  (Fields: InputValueDefinition)

datatype TypeExtension =
    TypeExtension_nil
  | TypeExtension_ScalarTypeExtension ScalarTypeExtension
  | TypeExtension_ObjectTypeExtension ObjectTypeExtension
  | TypeExtension_InterfaceTypeExtension InterfaceTypeExtension
  | TypeExtension_UnionTypeExtension UnionTypeExtension
  | TypeExtension_EnumTypeExtension EnumTypeExtension
  | TypeExtension_InputObjectTypeExtension InputObjectTypeExtension

datatype SchemaDocument = SchemaDocument
  (Loc: Location)
  (SchemaDefinitions: "SchemaDefinition list")
  (TypeDefinitions: "TypeDefinition list")
  (DirectiveDefinition: "DirectiveDefinition list")
  (SchemaExtensions: "SchemaExtension list")
  (TypeExtensions: "TypeExtension list")

section \<open>Properties of the declarations\<close>

lemmas decl_tables =
  type_decls_def source_location_decls_def executable_decls_def value_decls_def
  definition_decls_def extension_decls_def

lemma struct_names_eq:
  "struct_names = [
     ''Source'', ''Location'', ''Token'',
     ''Name'', ''ExecutableDocument'', ''SchemaDocument'', ''OperationDefinition'',
     ''VariableDefinition'', ''Variable'', ''SelectionSet'', ''Field'', ''Argument'',
     ''FragmentSpread'', ''InlineFragment'', ''FragmentDefinition'',
     ''IntValue'', ''FloatValue'', ''StringValue'', ''BooleanValue'', ''NullValue'',
     ''EnumValue'', ''ListValue'', ''ObjectValue'', ''ObjectField'', ''Directive'',
     ''NamedType'', ''ListType'', ''NonNullType'',
     ''SchemaDefinition'', ''OperationTypeDefinition'', ''ScalarTypeDefinition'',
     ''ObjectTypeDefinition'', ''FieldDefinition'', ''InputValueDefinition'',
     ''InterfaceTypeDefinition'', ''UnionTypeDefinition'', ''EnumTypeDefinition'',
     ''EnumValueDefinition'', ''InputObjectTypeDefinition'', ''DirectiveDefinition'',
     ''SchemaExtension'', ''ScalarTypeExtension'', ''ObjectTypeExtension'',
     ''InterfaceTypeExtension'', ''UnionTypeExtension'', ''EnumTypeExtension'',
     ''InputObjectTypeExtension'']"
  by (simp add: struct_names_def decl_tables)


lemma type_names_distinct: "distinct (map fst type_decls)"
  by (simp add: decl_tables)

subsection \<open>Looking a struct up once\<close>

text \<open>
  Type names are distinct, so a struct's fields are the ones its declaration lists, and
  a property of every struct can be checked in one pass over the declarations.
\<close>

lemma decl_of_member:
  assumes "(n, d) \<in> set type_decls"
  shows "decl_of n = Some d"
  unfolding decl_of_def using assms type_names_distinct by (rule_tac map_of_is_SomeI)

lemma struct_fields_of_decl:
  assumes "(n, StructType fs) \<in> set type_decls"
  shows "struct_fields n = fs"
  by (simp add: struct_fields_def decl_of_member [OF assms])

lemma struct_names_decl:
  assumes "n \<in> set struct_names"
  shows "\<exists>fs. (n, StructType fs) \<in> set type_decls"
proof -
  from assms obtain d where d: "(n, d) \<in> set type_decls" "is_struct d"
    by (auto simp add: struct_names_def)
  then show ?thesis by (cases d) auto
qed

lemma all_structs:
  assumes "list_all (\<lambda>(n, d). case d of StructType fs \<Rightarrow> Q n fs | InterfaceType ms \<Rightarrow> True)
             type_decls"
    and "n \<in> set struct_names"
  shows "Q n (struct_fields n)"
proof -
  from assms(2) obtain fs where fs: "(n, StructType fs) \<in> set type_decls"
    using struct_names_decl by blast
  with assms(1) have "Q n fs" by (auto simp add: list_all_iff)
  with fs show ?thesis by (simp add: struct_fields_of_decl)
qed

lemma field_type_by_pass:
  assumes "list_all (\<lambda>(n, d). case d of
               StructType fs \<Rightarrow> n = n0 \<longrightarrow> map_of fs f = r
             | InterfaceType ms \<Rightarrow> True) type_decls"
    and "n0 \<in> set struct_names"
  shows "field_type n0 f = r"
  using all_structs [OF assms] by (simp add: field_type_def)

subsection \<open>The five interfaces and their method sets\<close>












subsection \<open>Location fields\<close>

lemma one_location_pass:
  "list_all (\<lambda>(n, d). case d of
       StructType fs \<Rightarrow>
         n \<in> set [''Source'', ''Location'', ''Token''] \<or>
         filter (\<lambda>(f, t). mentions ''Location'' t) fs = [(''Loc'', Named ''Location'')]
     | InterfaceType ms \<Rightarrow> True) type_decls"
  by (simp add: decl_tables)

lemma node_types_eq:
  "node_types = [
     ''Name'', ''ExecutableDocument'', ''SchemaDocument'', ''OperationDefinition'',
     ''VariableDefinition'', ''Variable'', ''SelectionSet'', ''Field'', ''Argument'',
     ''FragmentSpread'', ''InlineFragment'', ''FragmentDefinition'',
     ''IntValue'', ''FloatValue'', ''StringValue'', ''BooleanValue'', ''NullValue'',
     ''EnumValue'', ''ListValue'', ''ObjectValue'', ''ObjectField'', ''Directive'',
     ''NamedType'', ''ListType'', ''NonNullType'',
     ''SchemaDefinition'', ''OperationTypeDefinition'', ''ScalarTypeDefinition'',
     ''ObjectTypeDefinition'', ''FieldDefinition'', ''InputValueDefinition'',
     ''InterfaceTypeDefinition'', ''UnionTypeDefinition'', ''EnumTypeDefinition'',
     ''EnumValueDefinition'', ''InputObjectTypeDefinition'', ''DirectiveDefinition'',
     ''SchemaExtension'', ''ScalarTypeExtension'', ''ObjectTypeExtension'',
     ''InterfaceTypeExtension'', ''UnionTypeExtension'', ''EnumTypeExtension'',
     ''InputObjectTypeExtension'']"
  by (simp add: node_types_def struct_names_eq)

text \<open>
  C5. Every AST node type (each of the 44 struct types other than Source, Location and
  Token) has exactly one field whose type is Location, a slice of Location or a pointer
  to Location: the field \<^verbatim>\<open>Loc\<close>, of type Location itself. So every node value carries
  exactly one Location.
\<close>

theorem node_owns_one_location:
  "length node_types = 44 \<and>
   (\<forall>n \<in> set node_types.
      filter (\<lambda>(f, t). mentions ''Location'' t) (struct_fields n) =
        [(''Loc'', Named ''Location'')])"
proof
  show "length node_types = 44" by (simp add: node_types_eq)
next
  show "\<forall>n \<in> set node_types.
      filter (\<lambda>(f, t). mentions ''Location'' t) (struct_fields n) =
        [(''Loc'', Named ''Location'')]"
  proof
    fix n assume "n \<in> set node_types"
    then have n: "n \<in> set struct_names" "n \<notin> set [''Source'', ''Location'', ''Token'']"
      by (simp_all add: node_types_def)
    from all_structs [OF one_location_pass n(1)] n(2) show
      "filter (\<lambda>(f, t). mentions ''Location'' t) (struct_fields n) =
         [(''Loc'', Named ''Location'')]"
      by blast
  qed
qed

theorem node_owns_one_location_witness:
  "''Field'' \<in> set node_types \<and>
   filter (\<lambda>(f, t). mentions ''Location'' t) (struct_fields ''Field'') =
     [(''Loc'', Named ''Location'')]"
proof -
  have h: "''Field'' \<in> set node_types" by (simp add: node_types_eq)
  from node_owns_one_location have
    "\<forall>n \<in> set node_types.
      filter (\<lambda>(f, t). mentions ''Location'' t) (struct_fields n) =
        [(''Loc'', Named ''Location'')]" ..
  with h show ?thesis by blast
qed

subsection \<open>Description fields\<close>

lemma definition_description_pass:
  "list_all (\<lambda>(n, d). case d of
       StructType fs \<Rightarrow>
         has_suffix n ''Definition'' \<longrightarrow>
         map_of fs ''Description'' =
           (if n \<in> set [''SchemaDefinition'', ''OperationTypeDefinition'',
                        ''OperationDefinition'', ''VariableDefinition'',
                        ''FragmentDefinition'']
            then None else Some (Named ''StringValue''))
     | InterfaceType ms \<Rightarrow> True) type_decls"
  by (simp add: decl_tables has_suffix_def)

lemma extension_description_pass:
  "list_all (\<lambda>(n, d). case d of
       StructType fs \<Rightarrow> has_suffix n ''Extension'' \<longrightarrow> map_of fs ''Description'' = None
     | InterfaceType ms \<Rightarrow> True) type_decls"
  by (simp add: decl_tables has_suffix_def)

lemma definition_names:
  "filter (\<lambda>n. has_suffix n ''Definition'') struct_names = [
     ''OperationDefinition'', ''VariableDefinition'', ''FragmentDefinition'',
     ''SchemaDefinition'', ''OperationTypeDefinition'', ''ScalarTypeDefinition'',
     ''ObjectTypeDefinition'', ''FieldDefinition'', ''InputValueDefinition'',
     ''InterfaceTypeDefinition'', ''UnionTypeDefinition'', ''EnumTypeDefinition'',
     ''EnumValueDefinition'', ''InputObjectTypeDefinition'', ''DirectiveDefinition'']"
  by (simp add: struct_names_eq has_suffix_def)

lemma extension_names:
  "filter (\<lambda>n. has_suffix n ''Extension'') struct_names = [
     ''SchemaExtension'', ''ScalarTypeExtension'', ''ObjectTypeExtension'',
     ''InterfaceTypeExtension'', ''UnionTypeExtension'', ''EnumTypeExtension'',
     ''InputObjectTypeExtension'']"
  by (simp add: struct_names_eq has_suffix_def)

text \<open>
  C7, as the claim states it, fails: SchemaDefinition is a struct type whose name ends
  in Definition, and it has no Description field.
\<close>

theorem schema_definition_has_no_description:
  "''SchemaDefinition'' \<in> set struct_names \<and>
   has_suffix ''SchemaDefinition'' ''Definition'' \<and>
   field_type ''SchemaDefinition'' ''Description'' = None"
proof (intro conjI)
  show "''SchemaDefinition'' \<in> set struct_names" by (simp add: struct_names_eq)
  show "has_suffix ''SchemaDefinition'' ''Definition''" by (simp add: has_suffix_def)
  show "field_type ''SchemaDefinition'' ''Description'' = None"
    by (rule field_type_by_pass) (simp_all add: decl_tables struct_names_eq)
qed

text \<open>
  C7, amended. Fifteen struct types have a name that ends in Definition. Ten of them,
  the definitions of the type system that the schema language lets an author document
  (ScalarTypeDefinition, ObjectTypeDefinition, FieldDefinition, InputValueDefinition,
  InterfaceTypeDefinition, UnionTypeDefinition, EnumTypeDefinition, EnumValueDefinition,
  InputObjectTypeDefinition and DirectiveDefinition), own a field Description of type
  StringValue, held by value, so that a StringValue with an empty value is what stands
  for "no description was present". The other five (SchemaDefinition,
  OperationTypeDefinition, OperationDefinition, VariableDefinition and
  FragmentDefinition) have no Description field.
\<close>

theorem definition_descriptions:
  "filter (\<lambda>n. has_suffix n ''Definition'') struct_names = [
     ''OperationDefinition'', ''VariableDefinition'', ''FragmentDefinition'',
     ''SchemaDefinition'', ''OperationTypeDefinition'', ''ScalarTypeDefinition'',
     ''ObjectTypeDefinition'', ''FieldDefinition'', ''InputValueDefinition'',
     ''InterfaceTypeDefinition'', ''UnionTypeDefinition'', ''EnumTypeDefinition'',
     ''EnumValueDefinition'', ''InputObjectTypeDefinition'', ''DirectiveDefinition'']
   \<and> (\<forall>n \<in> set struct_names. has_suffix n ''Definition'' \<longrightarrow>
         field_type n ''Description'' =
           (if n \<in> set [''SchemaDefinition'', ''OperationTypeDefinition'',
                        ''OperationDefinition'', ''VariableDefinition'',
                        ''FragmentDefinition'']
            then None else Some (Named ''StringValue'')))"
proof (intro conjI ballI impI)
  show "filter (\<lambda>n. has_suffix n ''Definition'') struct_names = [
     ''OperationDefinition'', ''VariableDefinition'', ''FragmentDefinition'',
     ''SchemaDefinition'', ''OperationTypeDefinition'', ''ScalarTypeDefinition'',
     ''ObjectTypeDefinition'', ''FieldDefinition'', ''InputValueDefinition'',
     ''InterfaceTypeDefinition'', ''UnionTypeDefinition'', ''EnumTypeDefinition'',
     ''EnumValueDefinition'', ''InputObjectTypeDefinition'', ''DirectiveDefinition'']"
    by (rule definition_names)
next
  fix n assume n: "n \<in> set struct_names" and suffix: "has_suffix n ''Definition''"
  from all_structs [OF definition_description_pass n] suffix
  show "field_type n ''Description'' =
           (if n \<in> set [''SchemaDefinition'', ''OperationTypeDefinition'',
                        ''OperationDefinition'', ''VariableDefinition'',
                        ''FragmentDefinition'']
            then None else Some (Named ''StringValue''))"
    unfolding field_type_def by blast
qed

theorem definition_descriptions_witness:
  "''FieldDefinition'' \<in> set struct_names \<and>
   has_suffix ''FieldDefinition'' ''Definition'' \<and>
   field_type ''FieldDefinition'' ''Description'' = Some (Named ''StringValue'')"
proof -
  have h1: "''FieldDefinition'' \<in> set struct_names" by (simp add: struct_names_eq)
  have h2: "has_suffix ''FieldDefinition'' ''Definition''" by (simp add: has_suffix_def)
  from definition_descriptions have
    "\<forall>n \<in> set struct_names. has_suffix n ''Definition'' \<longrightarrow>
         field_type n ''Description'' =
           (if n \<in> set [''SchemaDefinition'', ''OperationTypeDefinition'',
                        ''OperationDefinition'', ''VariableDefinition'',
                        ''FragmentDefinition'']
            then None else Some (Named ''StringValue''))" ..
  with h1 h2 have
    "field_type ''FieldDefinition'' ''Description'' =
       (if ''FieldDefinition'' \<in> set [''SchemaDefinition'', ''OperationTypeDefinition'',
                        ''OperationDefinition'', ''VariableDefinition'',
                        ''FragmentDefinition'']
        then None else Some (Named ''StringValue''))"
    by blast
  with h1 h2 show ?thesis by simp
qed

text \<open>
  C8. The seven struct types whose name ends in Extension (SchemaExtension and the six
  type extensions) are the extension node types, and none of them has a Description
  field.
\<close>

theorem extensions_have_no_description:
  "filter (\<lambda>n. has_suffix n ''Extension'') struct_names = [
     ''SchemaExtension'', ''ScalarTypeExtension'', ''ObjectTypeExtension'',
     ''InterfaceTypeExtension'', ''UnionTypeExtension'', ''EnumTypeExtension'',
     ''InputObjectTypeExtension'']
   \<and> (\<forall>n \<in> set struct_names. has_suffix n ''Extension'' \<longrightarrow>
         field_type n ''Description'' = None)"
proof (intro conjI ballI impI)
  show "filter (\<lambda>n. has_suffix n ''Extension'') struct_names = [
     ''SchemaExtension'', ''ScalarTypeExtension'', ''ObjectTypeExtension'',
     ''InterfaceTypeExtension'', ''UnionTypeExtension'', ''EnumTypeExtension'',
     ''InputObjectTypeExtension'']"
    by (rule extension_names)
next
  fix n assume n: "n \<in> set struct_names" and suffix: "has_suffix n ''Extension''"
  from all_structs [OF extension_description_pass n] suffix
  show "field_type n ''Description'' = None"
    unfolding field_type_def by blast
qed

theorem extensions_have_no_description_witness:
  "''ObjectTypeExtension'' \<in> set struct_names \<and>
   has_suffix ''ObjectTypeExtension'' ''Extension'' \<and>
   field_type ''ObjectTypeExtension'' ''Description'' = None"
proof -
  have h1: "''ObjectTypeExtension'' \<in> set struct_names" by (simp add: struct_names_eq)
  have h2: "has_suffix ''ObjectTypeExtension'' ''Extension''" by (simp add: has_suffix_def)
  from extensions_have_no_description have
    "\<forall>n \<in> set struct_names. has_suffix n ''Extension'' \<longrightarrow>
       field_type n ''Description'' = None" ..
  with h1 h2 show ?thesis by blast
qed

subsection \<open>Single fields and sequence fields\<close>

lemma InlineFragment_SelectionSet:
  "field_type ''InlineFragment'' ''SelectionSet'' = Some (Slice (Named ''SelectionSet''))"
  by (rule field_type_by_pass) (simp_all add: decl_tables struct_names_eq)

lemma FragmentDefinition_SelectionSet:
  "field_type ''FragmentDefinition'' ''SelectionSet'' = Some (Slice (Named ''SelectionSet''))"
  by (rule field_type_by_pass) (simp_all add: decl_tables struct_names_eq)

lemma Field_SelectionSet:
  "field_type ''Field'' ''SelectionSet'' = Some (Named ''SelectionSet'')"
  by (rule field_type_by_pass) (simp_all add: decl_tables struct_names_eq)

lemma OperationDefinition_SelectionSet:
  "field_type ''OperationDefinition'' ''SelectionSet'' = Some (Named ''SelectionSet'')"
  by (rule field_type_by_pass) (simp_all add: decl_tables struct_names_eq)

lemma DirectiveDefinition_Arguments:
  "field_type ''DirectiveDefinition'' ''Arguments'' = Some (Named ''InputValueDefinition'')"
  by (rule field_type_by_pass) (simp_all add: decl_tables struct_names_eq)

lemma DirectiveDefinition_Locations:
  "field_type ''DirectiveDefinition'' ''Locations'' = Some (Named ''Name'')"
  by (rule field_type_by_pass) (simp_all add: decl_tables struct_names_eq)

lemma ObjectTypeExtension_Interfaces:
  "field_type ''ObjectTypeExtension'' ''Interfaces'' = Some (Named ''NamedType'')"
  by (rule field_type_by_pass) (simp_all add: decl_tables struct_names_eq)

lemma ObjectTypeExtension_Fields:
  "field_type ''ObjectTypeExtension'' ''Fields'' = Some (Named ''FieldDefinition'')"
  by (rule field_type_by_pass) (simp_all add: decl_tables struct_names_eq)

lemma UnionTypeExtension_Types:
  "field_type ''UnionTypeExtension'' ''Types'' = Some (Named ''NamedType'')"
  by (rule field_type_by_pass) (simp_all add: decl_tables struct_names_eq)

lemma EnumTypeExtension_Values:
  "field_type ''EnumTypeExtension'' ''Values'' = Some (Named ''EnumValueDefinition'')"
  by (rule field_type_by_pass) (simp_all add: decl_tables struct_names_eq)

lemma InputObjectTypeExtension_Fields:
  "field_type ''InputObjectTypeExtension'' ''Fields'' = Some (Named ''InputValueDefinition'')"
  by (rule field_type_by_pass) (simp_all add: decl_tables struct_names_eq)

lemma FieldDefinition_Arguments:
  "field_type ''FieldDefinition'' ''Arguments'' = Some (Slice (Named ''InputValueDefinition''))"
  by (rule field_type_by_pass) (simp_all add: decl_tables struct_names_eq)

lemma ObjectTypeDefinition_Interfaces:
  "field_type ''ObjectTypeDefinition'' ''Interfaces'' = Some (Slice (Named ''NamedType''))"
  by (rule field_type_by_pass) (simp_all add: decl_tables struct_names_eq)

lemma ObjectTypeDefinition_Fields:
  "field_type ''ObjectTypeDefinition'' ''Fields'' = Some (Slice (Named ''FieldDefinition''))"
  by (rule field_type_by_pass) (simp_all add: decl_tables struct_names_eq)

lemma InterfaceTypeExtension_Fields:
  "field_type ''InterfaceTypeExtension'' ''Fields'' = Some (Slice (Named ''FieldDefinition''))"
  by (rule field_type_by_pass) (simp_all add: decl_tables struct_names_eq)

lemma UnionTypeDefinition_Types:
  "field_type ''UnionTypeDefinition'' ''Types'' = Some (Slice (Named ''NamedType''))"
  by (rule field_type_by_pass) (simp_all add: decl_tables struct_names_eq)

lemma EnumTypeDefinition_Values:
  "field_type ''EnumTypeDefinition'' ''Values'' = Some (Slice (Named ''EnumValueDefinition''))"
  by (rule field_type_by_pass) (simp_all add: decl_tables struct_names_eq)

lemma InputObjectTypeDefinition_Fields:
  "field_type ''InputObjectTypeDefinition'' ''Fields'' = Some (Slice (Named ''InputValueDefinition''))"
  by (rule field_type_by_pass) (simp_all add: decl_tables struct_names_eq)



text \<open>
  C3. The claim is that a FragmentDefinition and an InlineFragment each own exactly one
  SelectionSet. The declarations say otherwise: in both, the field \<^verbatim>\<open>SelectionSet\<close> is a
  slice of SelectionSet, while the field of the same name in Field and in
  OperationDefinition is one SelectionSet. So an InlineFragment with no selection set
  and a FragmentDefinition with two are values of their types.
\<close>

theorem fragment_selection_set_is_a_slice:
  "field_type ''InlineFragment'' ''SelectionSet'' = Some (Slice (Named ''SelectionSet''))
   \<and> field_type ''FragmentDefinition'' ''SelectionSet'' = Some (Slice (Named ''SelectionSet''))
   \<and> field_type ''Field'' ''SelectionSet'' = Some (Named ''SelectionSet'')
   \<and> field_type ''OperationDefinition'' ''SelectionSet'' = Some (Named ''SelectionSet'')
   \<and> length (InlineFragment.SelectionSet (InlineFragment.InlineFragment l tc ds [])) = 0
   \<and> length (FragmentDefinition.SelectionSet
               (FragmentDefinition.FragmentDefinition l' n vs tc' ds' [s1, s2])) = 2"
  by (simp add: InlineFragment_SelectionSet FragmentDefinition_SelectionSet Field_SelectionSet OperationDefinition_SelectionSet)

text \<open>
  C4. The claim is that seven fields are ordered sequences. The declarations give each
  of them the type of a single value: DirectiveDefinition.Arguments is one
  InputValueDefinition and DirectiveDefinition.Locations one Name;
  ObjectTypeExtension.Interfaces is one NamedType and ObjectTypeExtension.Fields one
  FieldDefinition; UnionTypeExtension.Types is one NamedType; EnumTypeExtension.Values
  one EnumValueDefinition; InputObjectTypeExtension.Fields one InputValueDefinition.
  The fields of the same names in the definitions they mirror, and in
  InterfaceTypeExtension, are slices.
\<close>

theorem plural_fields_hold_single_values:
  "field_type ''DirectiveDefinition'' ''Arguments'' = Some (Named ''InputValueDefinition'')
   \<and> field_type ''DirectiveDefinition'' ''Locations'' = Some (Named ''Name'')
   \<and> field_type ''ObjectTypeExtension'' ''Interfaces'' = Some (Named ''NamedType'')
   \<and> field_type ''ObjectTypeExtension'' ''Fields'' = Some (Named ''FieldDefinition'')
   \<and> field_type ''UnionTypeExtension'' ''Types'' = Some (Named ''NamedType'')
   \<and> field_type ''EnumTypeExtension'' ''Values'' = Some (Named ''EnumValueDefinition'')
   \<and> field_type ''InputObjectTypeExtension'' ''Fields'' = Some (Named ''InputValueDefinition'')
   \<and> field_type ''FieldDefinition'' ''Arguments'' = Some (Slice (Named ''InputValueDefinition''))
   \<and> field_type ''ObjectTypeDefinition'' ''Interfaces'' = Some (Slice (Named ''NamedType''))
   \<and> field_type ''ObjectTypeDefinition'' ''Fields'' = Some (Slice (Named ''FieldDefinition''))
   \<and> field_type ''InterfaceTypeExtension'' ''Fields'' = Some (Slice (Named ''FieldDefinition''))
   \<and> field_type ''UnionTypeDefinition'' ''Types'' = Some (Slice (Named ''NamedType''))
   \<and> field_type ''EnumTypeDefinition'' ''Values'' = Some (Slice (Named ''EnumValueDefinition''))
   \<and> field_type ''InputObjectTypeDefinition'' ''Fields'' = Some (Slice (Named ''InputValueDefinition''))"
  by (simp add: DirectiveDefinition_Arguments DirectiveDefinition_Locations ObjectTypeExtension_Interfaces ObjectTypeExtension_Fields UnionTypeExtension_Types EnumTypeExtension_Values InputObjectTypeExtension_Fields
      FieldDefinition_Arguments ObjectTypeDefinition_Interfaces ObjectTypeDefinition_Fields InterfaceTypeExtension_Fields UnionTypeDefinition_Types EnumTypeDefinition_Values InputObjectTypeDefinition_Fields)

subsection \<open>Default values\<close>


end
